theory Spec2Isabelle
  imports Main "HOL-Library.Word" "HOL-Library.AList"
begin

section \<open>The CBOR serializer of the API machinery\<close>

text \<open>
  A shallow embedding of \<^verbatim>\<open>k8s.io/apimachinery/pkg/runtime/serializer/cbor\<close>
  (the serializer with its meta-factory) and of the custom marshalling of the
  JSON-schema union types of the apiextensions API. Go values are HOL values, a Go
  function with several results returns a tuple or a record, an \<^verbatim>\<open>error\<close> result is
  an \<open>option\<close> (\<open>None\<close> is \<^verbatim>\<open>nil\<close>), and the interfaces the serializer is bound to
  are records of functions passed as arguments.
\<close>

subsection \<open>Bytes and group/version/kind\<close>

type_synonym byte = "8 word"

text \<open>\<^verbatim>\<open>schema.GroupVersionKind\<close>: three strings, the empty string meaning "unset".\<close>

record GroupVersionKind =
  Group :: string
  Version :: string
  Kind :: string

text \<open>
  \<^verbatim>\<open>gvkWithDefaults\<close> works on its own copy of \<^verbatim>\<open>actual\<close>; the three
  \<^verbatim>\<open>if\<close> statements run one after the other, each on the result of the one before.
\<close>

definition gvkWithDefaults :: "GroupVersionKind \<Rightarrow> GroupVersionKind \<Rightarrow> GroupVersionKind" where
  "gvkWithDefaults actual defaultGVK =
     (let a1 = (if length (Kind actual) = 0 then actual\<lparr>Kind := Kind defaultGVK\<rparr> else actual);
          a2 = (if length (Version a1) = 0 \<and> length (Group a1) = 0
                then a1\<lparr>Group := Group defaultGVK, Version := Version defaultGVK\<rparr> else a1);
          a3 = (if length (Version a2) = 0 \<and> Group a2 = Group defaultGVK
                then a2\<lparr>Version := Version defaultGVK\<rparr> else a2)
      in a3)"

subsection \<open>Errors, values and objects\<close>

text \<open>
  Go's \<^verbatim>\<open>error\<close> values, as far as the serializer tells them apart: the
  library's \<^verbatim>\<open>*cbor.UnknownFieldError\<close> with its index, the strict decoding error of
  \<^verbatim>\<open>runtime.NewStrictDecodingError\<close> with the errors it collects, the missing
  kind and missing version errors with the rendering of the data they are given, an
  error wrapped by \<^verbatim>\<open>fmt.Errorf("...: %w", err)\<close>, and every other error by its message.
\<close>

datatype error =
    UnknownFieldError int
  | StrictDecodingError "error list"
  | MissingKindErr string
  | MissingVersionErr string
  | Errorf string error
  | OtherError string

text \<open>
  What an \<^verbatim>\<open>interface{}\<close> holds after a decode, and the content of an
  unstructured object, \<^verbatim>\<open>map[string]interface{}\<close>: a map is the list of its
  entries, with one entry for a key; the nil map is the empty list.
\<close>

datatype any =
    Nil
  | Bool bool
  | Int64 "64 word"
  | Float64 "64 word"
  | String string
  | Array "any list"
  | Object "(string \<times> any) list"

type_synonym content = "(string \<times> any) list"

text \<open>
  A \<^verbatim>\<open>runtime.Object\<close> either implements \<^verbatim>\<open>runtime.Unstructured\<close> or does
  not. The serializer reaches an unstructured object of type \<open>'u\<close> through the methods
  of that interface only, and an object of any other type \<open>'t\<close> through the library only.
\<close>

datatype ('u, 't) object = Unstructured 'u | Typed 't

text \<open>
  \<^verbatim>\<open>metav1.TypeMeta\<close>, with its two fields \<^verbatim>\<open>Kind\<close> and \<^verbatim>\<open>APIVersion\<close>
  (prefixed here: \<open>Kind\<close> is a field of \<open>GroupVersionKind\<close> already).
\<close>

record TypeMeta =
  TypeMeta_Kind :: string
  TypeMeta_APIVersion :: string

subsection \<open>Recognising CBOR data\<close>

text \<open>The self-described CBOR tag, \<^verbatim>\<open>[]byte("\xd9\xd9\xf7")\<close>.\<close>

definition selfDescribedTag :: "byte list" where
  "selfDescribedTag = [0xd9, 0xd9, 0xf7]"

text \<open>
  \<^verbatim>\<open>bytes.HasPrefix(s, prefix)\<close> of the Go library:
  \<^verbatim>\<open>len(s) >= len(prefix) && bytes.Equal(s[:len(prefix)], prefix)\<close>.
\<close>

definition HasPrefix :: "byte list \<Rightarrow> byte list \<Rightarrow> bool" where
  "HasPrefix s p = (length p \<le> length s \<and> take (length p) s = p)"

text \<open>
  \<^verbatim>\<open>RecognizesData\<close> does not read its receiver. Its three results are
  \<^verbatim>\<open>ok\<close>, \<^verbatim>\<open>unknown\<close> and \<^verbatim>\<open>err\<close>.
\<close>

definition RecognizesData :: "byte list \<Rightarrow> bool \<times> bool \<times> error option" where
  "RecognizesData data = (HasPrefix data selfDescribedTag, False, None)"

subsection \<open>What the package calls\<close>

text \<open>The decode modes of \<^verbatim>\<open>internal/modes\<close>.\<close>

datatype mode = modes_Decode | modes_DecodeLax

text \<open>
  The functions the package calls and does not define are arguments of the model:
  \<^item> \<^verbatim>\<open>Unmarshal\<close> of the CBOR library under a decode mode, by the destination it is
    given: the address of a content map, an object that is not unstructured, the
    address of a \<^verbatim>\<open>TypeMeta\<close>. It returns its error and leaves the destination
    as far as it has filled it;
  \<^item> what the encoder of \<^verbatim>\<open>modes.Encode\<close> produces for a content map and for an
    object (which may be nil);
  \<^item> \<^verbatim>\<open>modes.Diagnostic.Diagnose\<close>;
  \<^item> the methods of \<^verbatim>\<open>runtime.Unstructured\<close> and of \<^verbatim>\<open>TypeMeta\<close>.
\<close>

record ('u, 't) externals =
  Unmarshal_content :: "mode \<Rightarrow> byte list \<Rightarrow> content \<Rightarrow> error option \<times> content"
  Unmarshal_object :: "mode \<Rightarrow> byte list \<Rightarrow> 't \<Rightarrow> error option \<times> 't"
  Unmarshal_TypeMeta :: "mode \<Rightarrow> byte list \<Rightarrow> TypeMeta \<Rightarrow> error option \<times> TypeMeta"
  Marshal_content :: "content \<Rightarrow> error + byte list"
  Marshal_object :: "('u, 't) object option \<Rightarrow> error + byte list"
  Diagnose :: "byte list \<Rightarrow> error + string"
  UnstructuredContent :: "'u \<Rightarrow> content"
  SetUnstructuredContent :: "'u \<Rightarrow> content \<Rightarrow> 'u"
  Unstructured_GroupVersionKind :: "'u \<Rightarrow> GroupVersionKind"
  TypeMeta_GroupVersionKind :: "TypeMeta \<Rightarrow> GroupVersionKind"

subsection \<open>The meta-factory and the serializer\<close>

text \<open>
  \<^verbatim>\<open>(*defaultMetaFactory).Interpret\<close>: a lax decode into a zero \<^verbatim>\<open>TypeMeta\<close>; a
  decode error is wrapped, otherwise the GVK is the one the \<^verbatim>\<open>TypeMeta\<close> reports.
\<close>

definition Interpret :: "('u, 't) externals \<Rightarrow> byte list \<Rightarrow> error + GroupVersionKind" where
  "Interpret X data =
     (case Unmarshal_TypeMeta X modes_DecodeLax data \<lparr>TypeMeta_Kind = [], TypeMeta_APIVersion = []\<rparr> of
        (Some err, tm) \<Rightarrow> Inl (Errorf ''unable to determine group/version/kind: '' err)
      | (None, tm) \<Rightarrow> Inr (TypeMeta_GroupVersionKind X tm))"

record options =
  strict :: bool

definition Strict :: "bool \<Rightarrow> options \<Rightarrow> options" where
  "Strict s opts = opts\<lparr>strict := s\<rparr>"

text \<open>
  The \<^verbatim>\<open>serializer\<close> struct. Its three collaborators are interfaces with one
  method each that the serializer calls: \<^verbatim>\<open>Interpret\<close>, \<^verbatim>\<open>New\<close> and
  \<^verbatim>\<open>ObjectKinds\<close> (whose second result the serializer drops).
\<close>

record ('u, 't) serializer =
  metaFactory :: "byte list \<Rightarrow> error + GroupVersionKind"
  creater :: "GroupVersionKind \<Rightarrow> error + ('u, 't) object"
  typer :: "('u, 't) object \<Rightarrow> error + GroupVersionKind list"
  options :: options

definition newSerializer ::
  "(byte list \<Rightarrow> error + GroupVersionKind) \<Rightarrow> (GroupVersionKind \<Rightarrow> error + ('u, 't) object) \<Rightarrow>
   (('u, 't) object \<Rightarrow> error + GroupVersionKind list) \<Rightarrow> (options \<Rightarrow> options) list \<Rightarrow>
   ('u, 't) serializer" where
  "newSerializer mf cr ty os =
     \<lparr>metaFactory = mf, creater = cr, typer = ty,
      options = fold (\<lambda>opt opts. opt opts) os \<lparr>strict = False\<rparr>\<rparr>"

definition NewSerializer ::
  "('u, 't) externals \<Rightarrow> (GroupVersionKind \<Rightarrow> error + ('u, 't) object) \<Rightarrow>
   (('u, 't) object \<Rightarrow> error + GroupVersionKind list) \<Rightarrow> (options \<Rightarrow> options) list \<Rightarrow>
   ('u, 't) serializer" where
  "NewSerializer X cr ty os = newSerializer (Interpret X) cr ty os"

subsection \<open>Encode\<close>

text \<open>
  An \<^verbatim>\<open>io.Writer\<close> with state \<open>'w\<close>: \<^verbatim>\<open>Write\<close> takes the bytes and answers with
  an error or nil, leaving the writer in a new state. The serializer drops the byte
  count.
\<close>

type_synonym 'w Writer = "'w \<Rightarrow> byte list \<Rightarrow> 'w \<times> error option"

text \<open>
  \<^verbatim>\<open>(*cbor.Encoder).Encode\<close> on a writer: the library encodes the value into a
  buffer and, if that succeeds, hands the buffer to the writer in one \<^verbatim>\<open>Write\<close>.
\<close>

definition Encoder_Encode :: "'w Writer \<Rightarrow> 'w \<Rightarrow> error + byte list \<Rightarrow> 'w \<times> error option" where
  "Encoder_Encode wr w encoded =
     (case encoded of Inl err \<Rightarrow> (w, Some err) | Inr bs \<Rightarrow> wr w bs)"

definition Encode ::
  "('u, 't) externals \<Rightarrow> 'w Writer \<Rightarrow> ('u, 't) object option \<Rightarrow> 'w \<Rightarrow> 'w \<times> error option" where
  "Encode X wr obj w =
     (case wr w selfDescribedTag of
        (w1, Some err) \<Rightarrow> (w1, Some err)
      | (w1, None) \<Rightarrow>
          (case obj of
             Some (Unstructured u) \<Rightarrow>
               Encoder_Encode wr w1 (Marshal_content X (UnstructuredContent X u))
           | _ \<Rightarrow> Encoder_Encode wr w1 (Marshal_object X obj)))"

text \<open>
  A writer that also keeps, in order, every byte slice it was handed, as a test's
  buffer would: the transcript of the calls of \<^verbatim>\<open>Write\<close>.
\<close>

definition recording :: "'w Writer \<Rightarrow> ('w \<times> byte list list) Writer" where
  "recording wr = (\<lambda>(w, log) p. case wr w p of (w', e) \<Rightarrow> ((w', log @ [p]), e))"

text \<open>\<^verbatim>\<open>bytes.Buffer\<close>: \<^verbatim>\<open>Write\<close> appends and never fails.\<close>

definition Buffer_Write :: "(byte list) Writer" where
  "Buffer_Write = (\<lambda>buf p. (buf @ p, None))"

text \<open>The \<^verbatim>\<open>stubWriter\<close> of the tests: it answers every write with its error.\<close>

definition stubWriter :: "error option \<Rightarrow> unit Writer" where
  "stubWriter err = (\<lambda>w p. (w, err))"


subsection \<open>Decode\<close>

text \<open>\<^verbatim>\<open>hex.EncodeToString\<close> of the Go library: two lower-case digits for each byte.\<close>

definition hexdigit :: "nat \<Rightarrow> char" where
  "hexdigit n = ''0123456789abcdef'' ! (n mod 16)"

definition EncodeToString :: "byte list \<Rightarrow> string" where
  "EncodeToString bs = concat (map (\<lambda>b. [hexdigit (unat b div 16), hexdigit (unat b mod 16)]) bs)"

text \<open>
  \<^verbatim>\<open>diagnose\<close>: the diagnostic notation of the data, or its hexadecimal rendering
  when the library cannot produce one (the error is logged and dropped).
\<close>

definition diagnose :: "('u, 't) externals \<Rightarrow> byte list \<Rightarrow> string" where
  "diagnose X data = (case Diagnose X data of Inl err \<Rightarrow> EncodeToString data | Inr diag \<Rightarrow> diag)"

text \<open>
  \<^verbatim>\<open>(*serializer).unmarshal\<close>, from the point where the destination is settled: the
  lax mode alone when the serializer is not strict; otherwise the strict mode, and when
  its error is an unknown field error, the lax mode again on the same destination,
  the unknown field error being returned as a strict decoding error. The results are
  \<^verbatim>\<open>strict\<close>, \<^verbatim>\<open>lax\<close> and the destination as the library leaves it.
\<close>

definition unmarshal_into ::
  "(mode \<Rightarrow> byte list \<Rightarrow> 'd \<Rightarrow> error option \<times> 'd) \<Rightarrow> ('u, 't) serializer \<Rightarrow> byte list \<Rightarrow> 'd \<Rightarrow>
   error option \<times> error option \<times> 'd" where
  "unmarshal_into Unmarshal s data dst =
     (if \<not> strict (options s)
      then (case Unmarshal modes_DecodeLax data dst of (lax, dst1) \<Rightarrow> (None, lax, dst1))
      else (case Unmarshal modes_Decode data dst of
              (Some (UnknownFieldError i), dst1) \<Rightarrow>
                (case Unmarshal modes_DecodeLax data dst1 of
                   (lax, dst2) \<Rightarrow> (Some (StrictDecodingError [UnknownFieldError i]), lax, dst2))
            | (e, dst1) \<Rightarrow> (None, e, dst1)))"

text \<open>
  The first lines of \<^verbatim>\<open>unmarshal\<close> for an unstructured object: the destination is
  a new nil map, and the deferred call stores that map in the object whatever the
  decode returns.
\<close>

definition unmarshal_Unstructured ::
  "('u, 't) externals \<Rightarrow> ('u, 't) serializer \<Rightarrow> byte list \<Rightarrow> 'u \<Rightarrow> error option \<times> error option \<times> 'u" where
  "unmarshal_Unstructured X s data u =
     (case unmarshal_into (Unmarshal_content X) s data [] of
        (st, lax, content) \<Rightarrow> (st, lax, SetUnstructuredContent X u content))"

definition unmarshal ::
  "('u, 't) externals \<Rightarrow> ('u, 't) serializer \<Rightarrow> byte list \<Rightarrow> ('u, 't) object \<Rightarrow>
   error option \<times> error option \<times> ('u, 't) object" where
  "unmarshal X s data into =
     (case into of
        Unstructured u \<Rightarrow>
          (case unmarshal_Unstructured X s data u of (st, lax, u') \<Rightarrow> (st, lax, Unstructured u'))
      | Typed t \<Rightarrow>
          (case unmarshal_into (Unmarshal_object X) s data t of (st, lax, t') \<Rightarrow> (st, lax, Typed t')))"

text \<open>
  The object Decode decodes into and returns: the caller's \<^verbatim>\<open>into\<close> (the same
  pointer) or a new object; with it, the value the object holds.
\<close>

datatype ('u, 't) target = Caller "('u, 't) object" | Fresh "('u, 't) object"

definition target_object :: "('u, 't) target \<Rightarrow> ('u, 't) object" where
  "target_object tgt = (case tgt of Caller ob \<Rightarrow> ob | Fresh ob \<Rightarrow> ob)"

definition target_holding :: "('u, 't) target \<Rightarrow> ('u, 't) object \<Rightarrow> ('u, 't) target" where
  "target_holding tgt ob = (case tgt of Caller _ \<Rightarrow> Caller ob | Fresh _ \<Rightarrow> Fresh ob)"

text \<open>
  Modelled from the spec: \<^verbatim>\<open>runtime.UseOrCreateObject\<close> is not among the sources. It
  is the target selection of section 4.4, step 3: a caller-supplied object is looked up
  in the type registry, and a registry that does not know it fails; the target is the
  caller's object when the registry knows it under the effective GVK, and otherwise a
  new object instantiated from the registry keyed by that GVK.
\<close>

definition UseOrCreateObject ::
  "(('u, 't) object \<Rightarrow> error + GroupVersionKind list) \<Rightarrow> (GroupVersionKind \<Rightarrow> error + ('u, 't) object) \<Rightarrow>
   GroupVersionKind \<Rightarrow> ('u, 't) object option \<Rightarrow> error + ('u, 't) target" where
  "UseOrCreateObject t c gvk into =
     (case into of
        Some ob \<Rightarrow>
          (case t ob of
             Inl err \<Rightarrow> Inl err
           | Inr kinds \<Rightarrow>
               if gvk \<in> set kinds then Inr (Caller ob)
               else (case c gvk of Inl err \<Rightarrow> Inl err | Inr new \<Rightarrow> Inr (Fresh new)))
      | None \<Rightarrow> (case c gvk of Inl err \<Rightarrow> Inl err | Inr new \<Rightarrow> Inr (Fresh new)))"

text \<open>
  What a call of Decode leaves: its three results and the caller's \<^verbatim>\<open>into\<close>
  object as it is when Decode returns. A call can also panic (an index out of range).
\<close>

record ('u, 't) decoded =
  ret_obj :: "('u, 't) target option"
  ret_gvk :: "GroupVersionKind option"
  ret_err :: "error option"
  into_after :: "('u, 't) object option"

datatype 'a outcome = Panic | Return 'a

text \<open>The block of Decode for an unstructured \<^verbatim>\<open>into\<close>.\<close>

definition Decode_into_Unstructured ::
  "('u, 't) externals \<Rightarrow> ('u, 't) serializer \<Rightarrow> byte list \<Rightarrow> GroupVersionKind \<Rightarrow> 'u \<Rightarrow> ('u, 't) decoded" where
  "Decode_into_Unstructured X s data actual u =
     (case unmarshal_Unstructured X s data u of
        (st, Some e, u') \<Rightarrow>
          \<lparr>ret_obj = None, ret_gvk = Some actual, ret_err = Some e,
           into_after = Some (Unstructured u')\<rparr>
      | (st, None, u') \<Rightarrow>
          (let actual' = Unstructured_GroupVersionKind X u' in
           if length (Kind actual') = 0
           then \<lparr>ret_obj = None, ret_gvk = Some actual',
                 ret_err = Some (MissingKindErr (diagnose X data)),
                 into_after = Some (Unstructured u')\<rparr>
           else if length (Version actual') = 0
           then \<lparr>ret_obj = None, ret_gvk = Some actual',
                 ret_err = Some (MissingVersionErr (diagnose X data)),
                 into_after = Some (Unstructured u')\<rparr>
           else \<lparr>ret_obj = Some (Caller (Unstructured u')), ret_gvk = Some actual',
                 ret_err = None, into_after = Some (Unstructured u')\<rparr>))"

text \<open>The end of Decode, from the check of the kind on.\<close>

definition Decode_selected ::
  "('u, 't) externals \<Rightarrow> ('u, 't) serializer \<Rightarrow> byte list \<Rightarrow> GroupVersionKind \<Rightarrow>
   ('u, 't) object option \<Rightarrow> ('u, 't) decoded" where
  "Decode_selected X s data actual into =
     (if length (Kind actual) = 0
      then \<lparr>ret_obj = None, ret_gvk = Some actual,
            ret_err = Some (MissingKindErr (diagnose X data)), into_after = into\<rparr>
      else if length (Version actual) = 0
      then \<lparr>ret_obj = None, ret_gvk = Some actual,
            ret_err = Some (MissingVersionErr (diagnose X data)), into_after = into\<rparr>
      else
        (case UseOrCreateObject (typer s) (creater s) actual into of
           Inl e \<Rightarrow> \<lparr>ret_obj = None, ret_gvk = Some actual, ret_err = Some e, into_after = into\<rparr>
         | Inr tgt \<Rightarrow>
             (case unmarshal X s data (target_object tgt) of
                (st, lax, ob) \<Rightarrow>
                  (let after = (case tgt of Caller _ \<Rightarrow> Some ob | Fresh _ \<Rightarrow> into) in
                   case lax of
                     Some e \<Rightarrow>
                       \<lparr>ret_obj = None, ret_gvk = Some actual, ret_err = Some e, into_after = after\<rparr>
                   | None \<Rightarrow>
                       \<lparr>ret_obj = Some (target_holding tgt ob), ret_gvk = Some actual,
                        ret_err = st, into_after = after\<rparr>))))"

definition Decode ::
  "('u, 't) externals \<Rightarrow> ('u, 't) serializer \<Rightarrow> byte list \<Rightarrow> GroupVersionKind option \<Rightarrow>
   ('u, 't) object option \<Rightarrow> ('u, 't) decoded outcome" where
  "Decode X s data gvk into =
     (case metaFactory s data of
        Inl e \<Rightarrow> Return \<lparr>ret_obj = None, ret_gvk = None, ret_err = Some e, into_after = into\<rparr>
      | Inr interpreted \<Rightarrow>
          (let actual = (case gvk of Some d \<Rightarrow> gvkWithDefaults interpreted d | None \<Rightarrow> interpreted) in
           case into of
             Some (Unstructured u) \<Rightarrow> Return (Decode_into_Unstructured X s data actual u)
           | Some (Typed t) \<Rightarrow>
               (case typer s (Typed t) of
                  Inl e \<Rightarrow>
                    Return \<lparr>ret_obj = None, ret_gvk = Some actual, ret_err = Some e, into_after = into\<rparr>
                | Inr [] \<Rightarrow> Panic
                | Inr (ty # _) \<Rightarrow> Return (Decode_selected X s data (gvkWithDefaults actual ty) into))
           | None \<Rightarrow> Return (Decode_selected X s data actual into)))"


subsection \<open>Test doubles\<close>

text \<open>
  The stubs of the package's tests: a meta-factory, a typer and a creater that answer
  every call with the result they were made with.
\<close>

definition stubMetaFactory :: "error + GroupVersionKind \<Rightarrow> byte list \<Rightarrow> error + GroupVersionKind" where
  "stubMetaFactory r = (\<lambda>data. r)"

definition stubTyper ::
  "error + GroupVersionKind list \<Rightarrow> ('u, 't) object \<Rightarrow> error + GroupVersionKind list" where
  "stubTyper r = (\<lambda>ob. r)"

definition stubCreater :: "error + ('u, 't) object \<Rightarrow> GroupVersionKind \<Rightarrow> error + ('u, 't) object" where
  "stubCreater r = (\<lambda>gvk. r)"

text \<open>Inputs of \<^verbatim>\<open>TestDecode\<close>, byte for byte.\<close>

definition ascii :: "string \<Rightarrow> byte list" where
  "ascii cs = map of_char cs"

definition data_z :: "byte list" where
  "data_z = [0xa1, 0x61] @ ascii ''z'' @ [0x01]"

definition data_apiVersion :: "byte list" where
  "data_apiVersion = [0xa1, 0x6a] @ ascii ''apiVersion'' @ [0x61] @ ascii ''v''"

definition data_kind :: "byte list" where
  "data_kind = [0xa1, 0x64] @ ascii ''kind'' @ [0x61] @ ascii ''k''"

text \<open>One more input: a map with the known key \<^verbatim>\<open>kind\<close> and the unknown key \<^verbatim>\<open>z\<close>.\<close>

definition data_kind_z :: "byte list" where
  "data_kind_z = [0xa2, 0x64] @ ascii ''kind'' @ [0x61] @ ascii ''k'' @ [0x61] @ ascii ''z'' @ [0x01]"

definition data_apiVersion_kind :: "byte list" where
  "data_apiVersion_kind =
     [0xa2, 0x6a] @ ascii ''apiVersion'' @ [0x61] @ ascii ''v'' @ [0x64] @ ascii ''kind'' @ [0x61] @ ascii ''k''"

text \<open>
  Modelled from the spec: \<^verbatim>\<open>unstructured.Unstructured\<close> and the
  \<^verbatim>\<open>GroupVersionKind\<close> methods are not among the sources. An unstructured object
  exposes a mapping from string to any, and its GVK is derived from the
  \<^verbatim>\<open>apiVersion\<close> and \<^verbatim>\<open>kind\<close> entries of that mapping (section 3). An
  \<^verbatim>\<open>apiVersion\<close> of the form group/version names both, one without a slash names
  a version alone (section 8, scenario 4, and \<^verbatim>\<open>TestMetaFactoryInterpret\<close>).
\<close>

definition FromAPIVersionAndKind :: "string \<Rightarrow> string \<Rightarrow> GroupVersionKind" where
  "FromAPIVersionAndKind apiVersion kind =
     (if CHR ''/'' \<in> set apiVersion
      then \<lparr>Group = takeWhile (\<lambda>c. c \<noteq> CHR ''/'') apiVersion,
            Version = drop 1 (dropWhile (\<lambda>c. c \<noteq> CHR ''/'') apiVersion), Kind = kind\<rparr>
      else \<lparr>Group = [], Version = apiVersion, Kind = kind\<rparr>)"

definition emptyGVK :: GroupVersionKind where
  "emptyGVK = \<lparr>Group = [], Version = [], Kind = []\<rparr>"

definition NestedString :: "content \<Rightarrow> string \<Rightarrow> string" where
  "NestedString c k = (case map_of c k of Some (String v) \<Rightarrow> v | _ \<Rightarrow> [])"

definition content_GroupVersionKind :: "content \<Rightarrow> GroupVersionKind" where
  "content_GroupVersionKind c =
     FromAPIVersionAndKind (NestedString c ''apiVersion'') (NestedString c ''kind'')"

text \<open>
  A stand-in for the library on the inputs above and on the empty map \<^verbatim>\<open>0xa0\<close>,
  with the results the tests expect of the library: the maps decode into a content map
  entry by entry; into a struct that has the fields \<^verbatim>\<open>kind\<close> and
  \<^verbatim>\<open>apiVersion\<close>, the key \<^verbatim>\<open>z\<close> is an unknown field (reported with the index
  of its entry) in the strict mode and is skipped in the lax mode; any other input is
  cut short (\<^verbatim>\<open>io.EOF\<close> for the empty input). The nil object encodes as the CBOR
  null.
\<close>

definition test_Unmarshal_content :: "mode \<Rightarrow> byte list \<Rightarrow> content \<Rightarrow> error option \<times> content" where
  "test_Unmarshal_content m data c =
     (if data = data_apiVersion_kind
      then (None, AList.update ''kind'' (String ''k'') (AList.update ''apiVersion'' (String ''v'') c))
      else if data = data_apiVersion then (None, AList.update ''apiVersion'' (String ''v'') c)
      else if data = data_kind then (None, AList.update ''kind'' (String ''k'') c)
      else if data = data_z then (None, AList.update ''z'' (Int64 1) c)
      else if data = data_kind_z then (None, AList.update ''z'' (Int64 1) (AList.update ''kind'' (String ''k'') c))
      else if data = [0xa0] then (None, c)
      else (Some (OtherError ''EOF''), c))"

definition test_Unmarshal_TypeMeta :: "mode \<Rightarrow> byte list \<Rightarrow> TypeMeta \<Rightarrow> error option \<times> TypeMeta" where
  "test_Unmarshal_TypeMeta m data tm =
     (if data = data_apiVersion_kind
      then (None, tm\<lparr>TypeMeta_Kind := ''k'', TypeMeta_APIVersion := ''v''\<rparr>)
      else if data = data_apiVersion then (None, tm\<lparr>TypeMeta_APIVersion := ''v''\<rparr>)
      else if data = data_kind then (None, tm\<lparr>TypeMeta_Kind := ''k''\<rparr>)
      else if data = data_z
      then (if m = modes_Decode then Some (UnknownFieldError 0) else None, tm)
      else if data = data_kind_z
      then (if m = modes_Decode then Some (UnknownFieldError 1) else None, tm\<lparr>TypeMeta_Kind := ''k''\<rparr>)
      else if data = [0xa0] then (None, tm)
      else (Some (OtherError ''EOF''), tm))"

definition testX :: "(content, TypeMeta) externals" where
  "testX =
     \<lparr>Unmarshal_content = test_Unmarshal_content,
      Unmarshal_object = test_Unmarshal_TypeMeta,
      Unmarshal_TypeMeta = test_Unmarshal_TypeMeta,
      Marshal_content = (\<lambda>c. Inl (OtherError ''not encoded by the stand-in'')),
      Marshal_object = (\<lambda>ob. case ob of None \<Rightarrow> Inr [0xf6]
                               | Some _ \<Rightarrow> Inl (OtherError ''not encoded by the stand-in'')),
      Diagnose = (\<lambda>data. Inl (OtherError ''no diagnostic notation'')),
      UnstructuredContent = (\<lambda>u. u),
      SetUnstructuredContent = (\<lambda>u c. c),
      Unstructured_GroupVersionKind = content_GroupVersionKind,
      TypeMeta_GroupVersionKind =
        (\<lambda>tm. FromAPIVersionAndKind (TypeMeta_APIVersion tm) (TypeMeta_Kind tm))\<rparr>"


text \<open>
  The two shapes of what Decode returns: an error and no object; or an object that an
  \<^verbatim>\<open>unmarshal\<close> without error has filled, with no error or with the strict
  decoding error of one unknown field.
\<close>

definition error_or_object ::
  "('u, 't) externals \<Rightarrow> ('u, 't) serializer \<Rightarrow> byte list \<Rightarrow> ('u, 't) decoded \<Rightarrow> bool" where
  "error_or_object X s data r =
     (case ret_obj r of
        None \<Rightarrow> ret_err r \<noteq> None
      | Some tgt \<Rightarrow>
          (ret_err r = None \<or> (\<exists>i. ret_err r = Some (StrictDecodingError [UnknownFieldError i]))) \<and>
          (\<exists>dst st. unmarshal X s data dst = (st, None, target_object tgt)))"


section \<open>The union types of the JSON schema\<close>











text \<open>
  An unmarshalling method has a pointer receiver: it returns its error and the value
  the receiver holds afterwards, \<open>s\<close> being the value it held before.
\<close>

subsection \<open>Schema or bool\<close>





subsection \<open>Schema or string array\<close>





subsection \<open>Schema or schema array\<close>





subsection \<open>Raw JSON\<close>





subsection \<open>Round trips\<close>






















subsection \<open>A codec for tests\<close>






section \<open>The decode modes\<close>

text \<open>
  \<^verbatim>\<open>internal/modes/decode.go\<close>: the options of the strict mode \<^verbatim>\<open>Decode\<close>, and the
  lax mode \<^verbatim>\<open>DecodeLax\<close> derived from them. The option values are constants of the
  CBOR library, written here by their names; \<^verbatim>\<open>ExtraReturnErrors\<close> is a bit mask
  (an unsigned integer), \<^verbatim>\<open>DefaultMapType\<close> a \<^verbatim>\<open>reflect.Type\<close> or nil.
\<close>

record DecOptions =
  DupMapKey :: string
  TimeTag :: string
  MaxNestedLevels :: int
  MaxArrayElements :: int
  MaxMapPairs :: int
  IndefLength :: string
  TagsMd :: string
  IntDec :: string
  MapKeyByteString :: string
  ExtraReturnErrors :: "64 word"
  DefaultMapType :: "string option"
  UTF8 :: string

text \<open>
  What the file uses of the library, for a destination of type \<open>'d\<close>:
  \<^item> the bit \<^verbatim>\<open>cbor.ExtraDecErrorUnknownField\<close>;
  \<^item> the check that \<^verbatim>\<open>DecOptions.DecMode()\<close> makes of the options (its error, or nil);
  \<^item> the \<^verbatim>\<open>DefaultMapType\<close> that \<^verbatim>\<open>DecMode.DecOptions()\<close> gives back, which according
    to the source is not the one the mode was made with;
  \<^item> the decoder under the rules common to both modes, which the options without that
    bit configure;
  \<^item> the index of the first map key of the input that has no corresponding field in the
    destination structure, if there is one.
\<close>

record 'd library =
  ExtraDecErrorUnknownField :: "64 word"
  DecMode_check :: "DecOptions \<Rightarrow> error option"
  DecOptions_DefaultMapType :: "string option"
  common_Unmarshal :: "DecOptions \<Rightarrow> byte list \<Rightarrow> 'd \<Rightarrow> error option \<times> 'd"
  unknown_field :: "byte list \<Rightarrow> 'd \<Rightarrow> int option"

definition Decode_options :: "'d library \<Rightarrow> DecOptions" where
  "Decode_options L =
     \<lparr>DupMapKey = ''DupMapKeyEnforcedAPF'',
      TimeTag = ''DecTagOptional'',
      MaxNestedLevels = 64,
      MaxArrayElements = 1024,
      MaxMapPairs = 1024,
      IndefLength = ''IndefLengthAllowed'',
      TagsMd = ''TagsAllowed'',
      IntDec = ''IntDecConvertSigned'',
      MapKeyByteString = ''MapKeyByteStringForbidden'',
      ExtraReturnErrors = ExtraDecErrorUnknownField L,
      DefaultMapType = Some ''map[string]interface {}'',
      UTF8 = ''UTF8RejectInvalid''\<rparr>"

text \<open>
  A mode is the options it was made from. Making a mode panics when the library
  refuses the options.
\<close>

definition Decode_mode :: "'d library \<Rightarrow> DecOptions outcome" where
  "Decode_mode L =
     (case DecMode_check L (Decode_options L) of
        Some err \<Rightarrow> Panic
      | None \<Rightarrow> Return (Decode_options L))"

definition DecodeLax_mode :: "'d library \<Rightarrow> DecOptions outcome" where
  "DecodeLax_mode L =
     (case Decode_mode L of
        Panic \<Rightarrow> Panic
      | Return decode \<Rightarrow>
          (let opts = decode\<lparr>DefaultMapType := DecOptions_DefaultMapType L\<rparr>;
               opts = opts\<lparr>ExtraReturnErrors :=
                        and (ExtraReturnErrors opts) (not (ExtraDecErrorUnknownField L))\<rparr>;
               opts = opts\<lparr>DefaultMapType := Some ''map[string]interface {}''\<rparr>
           in case DecMode_check L opts of
                Some err \<Rightarrow> Panic
              | None \<Rightarrow> Return opts))"

text \<open>
  Modelled from the spec: the decoder of the CBOR library is not among the sources.
  Both modes decode by the common rules of section 4.1; the strict mode additionally
  reports an unknown-field condition when a map key has no corresponding field in the
  destination structure (section 4.1), which the lax mode silently ignores (glossary).
  A mode reports the condition when its options have the bit
  \<^verbatim>\<open>ExtraDecErrorUnknownField\<close> ("error on map keys that don't map to a field in the
  destination struct", as the source says of it).
\<close>

definition DecMode_Unmarshal ::
  "'d library \<Rightarrow> DecOptions \<Rightarrow> byte list \<Rightarrow> 'd \<Rightarrow> error option \<times> 'd" where
  "DecMode_Unmarshal L opts data dst =
     (case common_Unmarshal L
             (opts\<lparr>ExtraReturnErrors :=
                     and (ExtraReturnErrors opts) (not (ExtraDecErrorUnknownField L))\<rparr>) data dst of
        (Some err, d) \<Rightarrow> (Some err, d)
      | (None, d) \<Rightarrow>
          if and (ExtraReturnErrors opts) (ExtraDecErrorUnknownField L) \<noteq> 0
          then (case unknown_field L data dst of
                  Some i \<Rightarrow> (Some (UnknownFieldError i), d)
                | None \<Rightarrow> (None, d))
          else (None, d))"

text \<open>
  A library for tests: the bit is 1, every option is accepted, and the decoder is the
  stand-in above, for a struct with the fields \<^verbatim>\<open>kind\<close> and \<^verbatim>\<open>apiVersion\<close>.
\<close>

definition testL :: "TypeMeta library" where
  "testL =
     \<lparr>ExtraDecErrorUnknownField = 1,
      DecMode_check = (\<lambda>opts. None),
      DecOptions_DefaultMapType = None,
      common_Unmarshal = (\<lambda>opts. test_Unmarshal_TypeMeta modes_DecodeLax),
      unknown_field = (\<lambda>data dst. if data = data_z then Some 0
                                    else if data = data_kind_z then Some 1 else None)\<rparr>"


section \<open>Properties\<close>

subsection \<open>Defaulting of group, version and kind\<close>

text \<open>
  C3. For every pair of GVKs (actual, default), the defaulting step fills the empty
  fields of actual from default with this precedence: an empty Kind becomes the default
  Kind; if both Version and Group are empty, both become the default's; otherwise, if
  Version is empty and Group equals the default Group, Version becomes the default
  Version; every other field is left as it is.
\<close>

theorem gvkWithDefaults_precedence:
  "gvkWithDefaults actual defaultGVK =
     \<lparr>Group = (if Version actual = [] \<and> Group actual = [] then Group defaultGVK
               else Group actual),
      Version = (if Version actual = [] \<and> Group actual = [] then Version defaultGVK
                 else if Version actual = [] \<and> Group actual = Group defaultGVK
                      then Version defaultGVK
                 else Version actual),
      Kind = (if Kind actual = [] then Kind defaultGVK else Kind actual)\<rparr>"
  by (cases actual) (simp add: gvkWithDefaults_def Let_def)

subsection \<open>Recognition of the self-described tag\<close>

lemma HasPrefix_iff_append: "HasPrefix s p \<longleftrightarrow> (\<exists>rest. s = p @ rest)"
proof
  assume "HasPrefix s p"
  then have "s = p @ drop (length p) s"
    by (metis HasPrefix_def append_take_drop_id)
  then show "\<exists>rest. s = p @ rest" ..
next
  assume "\<exists>rest. s = p @ rest"
  then show "HasPrefix s p"
    by (auto simp: HasPrefix_def)
qed

text \<open>
  C8. For every byte sequence b, RecognizesData(b) is (true, false, nil) if and only if
  b begins with the three bytes 0xd9 0xd9 0xf7, and (false, false, nil) otherwise:
  the first result says whether b begins with the tag, the unknown result is never
  true and the error is always nil.
\<close>

theorem RecognizesData_tag:
  "RecognizesData b = ((\<exists>rest. b = [0xd9, 0xd9, 0xf7] @ rest), False, None)"
  by (simp add: RecognizesData_def HasPrefix_iff_append selfDescribedTag_def)

subsection \<open>Encode writes the tag first\<close>

text \<open>
  C4. Every byte stream produced by a successful Encode begins with the three bytes
  0xd9 0xd9 0xf7, written before any payload bytes; if the writer returns an error
  while the tag is being written, Encode returns that error and no payload bytes are
  emitted. For any writer, the transcript of its calls shows the tag alone when the
  write of the tag fails, and the tag followed by one payload when Encode succeeds; a
  buffer holds the tag and then the payload.
\<close>

theorem Encode_tag_first:
  "(\<forall>w1 e. wr w selfDescribedTag = (w1, Some e) \<longrightarrow>
        Encode X (recording wr) ob (w, log) = ((w1, log @ [ [0xd9, 0xd9, 0xf7] ]), Some e))
   \<and> (\<forall>w' log'. Encode X (recording wr) ob (w, log) = ((w', log'), None) \<longrightarrow>
        (\<exists>payload. log' = log @ [ [0xd9, 0xd9, 0xf7], payload]))
   \<and> (\<forall>buf'. Encode X Buffer_Write ob buf = (buf', None) \<longrightarrow>
        (\<exists>payload. buf' = buf @ [0xd9, 0xd9, 0xf7] @ payload))"
proof (intro conjI allI impI)
  fix w1 e assume "wr w selfDescribedTag = (w1, Some e)"
  then show "Encode X (recording wr) ob (w, log) = ((w1, log @ [ [0xd9, 0xd9, 0xf7] ]), Some e)"
    by (simp add: Encode_def recording_def selfDescribedTag_def)
next
  fix w' log' assume "Encode X (recording wr) ob (w, log) = ((w', log'), None)"
  then show "\<exists>payload. log' = log @ [ [0xd9, 0xd9, 0xf7], payload]"
    by (auto simp: Encode_def recording_def selfDescribedTag_def Encoder_Encode_def
        split: prod.splits option.splits sum.splits object.splits)
next
  fix buf' assume "Encode X Buffer_Write ob buf = (buf', None)"
  then show "\<exists>payload. buf' = buf @ [0xd9, 0xd9, 0xf7] @ payload"
    by (auto simp: Encode_def Buffer_Write_def selfDescribedTag_def Encoder_Encode_def
        split: prod.splits option.splits sum.splits object.splits)
qed

theorem Encode_tag_first_witness:
  "Encode testX (recording (stubWriter (Some (OtherError ''short write'')))) None ((), [])
     = (((), [ [0xd9, 0xd9, 0xf7] ]), Some (OtherError ''short write''))
   \<and> Encode testX (recording Buffer_Write) None ([], [])
     = (([0xd9, 0xd9, 0xf7, 0xf6], [ [0xd9, 0xd9, 0xf7], [0xf6] ]), None)
   \<and> (\<exists>payload :: byte list. [ [0xd9, 0xd9, 0xf7], [0xf6] ] = [] @ [ [0xd9, 0xd9, 0xf7], payload])
   \<and> Encode testX Buffer_Write None [] = ([0xd9, 0xd9, 0xf7, 0xf6], None)
   \<and> (\<exists>payload :: byte list. [0xd9, 0xd9, 0xf7, 0xf6] = [] @ [0xd9, 0xd9, 0xf7] @ payload)"
proof -
  let ?e = "OtherError ''short write''"
  have h1: "stubWriter (Some ?e) () selfDescribedTag = ((), Some ?e)"
    by (simp add: stubWriter_def)
  have h2: "Encode testX (recording Buffer_Write) None ([], [])
      = (([0xd9, 0xd9, 0xf7, 0xf6], [ [0xd9, 0xd9, 0xf7], [0xf6] ]), None)"
    by (simp add: Encode_def recording_def Buffer_Write_def selfDescribedTag_def
        Encoder_Encode_def testX_def)
  have h3: "Encode testX Buffer_Write None [] = ([0xd9, 0xd9, 0xf7, 0xf6], None)"
    by (simp add: Encode_def Buffer_Write_def selfDescribedTag_def Encoder_Encode_def testX_def)
  have c1: "Encode testX (recording (stubWriter (Some ?e))) None ((), [])
      = (((), [] @ [ [0xd9, 0xd9, 0xf7] ]), Some ?e)"
    using Encode_tag_first[where wr = "stubWriter (Some ?e)" and w = "()" and X = testX
        and ob = None and log = "[]"] h1
    by blast
  have c2: "\<exists>payload :: byte list. [ [0xd9, 0xd9, 0xf7], [0xf6] ] = [] @ [ [0xd9, 0xd9, 0xf7], payload]"
    using Encode_tag_first[where wr = Buffer_Write and w = "[]" and X = testX
        and ob = None and log = "[]"] h2
    by blast
  have c3: "\<exists>payload :: byte list. [0xd9, 0xd9, 0xf7, 0xf6] = [] @ [0xd9, 0xd9, 0xf7] @ payload"
    using Encode_tag_first[where wr = Buffer_Write and X = testX and ob = None and buf = "[]"] h3
    by blast
  from c1 h2 c2 h3 c3 show ?thesis by simp
qed

subsection \<open>Facts about the test doubles\<close>

lemma data_neq [simp]:
  "data_apiVersion \<noteq> data_apiVersion_kind" "[0xa0] \<noteq> data_apiVersion_kind"
  "[0xa0] \<noteq> data_apiVersion" "[0xa0] \<noteq> data_kind" "[0xa0] \<noteq> data_z" "[0xa0] \<noteq> data_kind_z"
  "data_kind_z \<noteq> data_apiVersion_kind" "data_kind_z \<noteq> data_apiVersion" "data_kind_z \<noteq> data_kind"
  "data_kind_z \<noteq> data_z"
  "data_kind \<noteq> data_apiVersion_kind" "data_kind \<noteq> data_apiVersion"
  "data_z \<noteq> data_apiVersion_kind" "data_z \<noteq> data_apiVersion" "data_z \<noteq> data_kind"
  by (simp_all add: data_apiVersion_def data_apiVersion_kind_def data_kind_def data_z_def data_kind_z_def ascii_def)

lemma EncodeToString_a0: "EncodeToString [0xa0] = ''a0''"
  by (simp add: EncodeToString_def hexdigit_def)

lemma empty_neq_data [simp]:
  "[] \<noteq> data_apiVersion_kind" "[] \<noteq> data_apiVersion" "[] \<noteq> data_kind" "[] \<noteq> data_z"
  "[] \<noteq> data_kind_z"
  by (simp_all add: data_apiVersion_def data_apiVersion_kind_def data_kind_def data_z_def
      data_kind_z_def ascii_def)

lemma EncodeToString_data_apiVersion:
  "EncodeToString data_apiVersion = ''a16a61706956657273696f6e6176''"
  by (simp add: EncodeToString_def hexdigit_def data_apiVersion_def ascii_def)

subsection \<open>The serializer and its options\<close>

lemma options_newSerializer_strict [simp]:
  "strict (options (newSerializer mf cr ty [Strict True]))"
  "\<not> strict (options (newSerializer mf cr ty []))"
  by (simp_all add: newSerializer_def Strict_def)

lemma fields_newSerializer [simp]:
  "metaFactory (newSerializer mf cr ty os) = mf"
  "creater (newSerializer mf cr ty os) = cr"
  "typer (newSerializer mf cr ty os) = ty"
  by (simp_all add: newSerializer_def)





subsection \<open>The meta-factory\<close>

text \<open>
  Interpret fails exactly when the lax decode into the \<^verbatim>\<open>TypeMeta\<close> fails, and its
  error then wraps the error of the decode; which inputs the decode refuses is the
  library's matter.
\<close>

lemma Interpret_fails_iff:
  "(\<exists>e. Interpret X data = Inl e) \<longleftrightarrow>
   fst (Unmarshal_TypeMeta X modes_DecodeLax data \<lparr>TypeMeta_Kind = [], TypeMeta_APIVersion = []\<rparr>) \<noteq> None"
  by (auto simp: Interpret_def split: prod.splits option.splits)

lemma Interpret_error:
  assumes "Interpret X data = Inl e"
  shows "\<exists>cause. e = Errorf ''unable to determine group/version/kind: '' cause"
  using assms by (auto simp: Interpret_def split: prod.splits option.splits)

lemma Interpret_apiVersion_kind:
  "Interpret testX data_apiVersion_kind = Inr \<lparr>Group = [], Version = ''v'', Kind = ''k''\<rparr>"
  by (simp add: Interpret_def testX_def test_Unmarshal_TypeMeta_def FromAPIVersionAndKind_def)

lemma Interpret_empty_input:
  "Interpret testX [] = Inl (Errorf ''unable to determine group/version/kind: '' (OtherError ''EOF''))"
  by (simp add: Interpret_def testX_def test_Unmarshal_TypeMeta_def)

subsection \<open>Strict decoding\<close>



subsection \<open>Decoding into an unstructured object\<close>

text \<open>
  C2, as amended. For every call Decode(data, gvk, into) where into is an unstructured
  object, the meta-factory interprets the data and the decode into the content map
  succeeds: into is mutated to hold the decoded mapping; if the Kind that into then
  reports is empty, the call fails with a MissingKind error; otherwise, if the Version
  is empty, it fails with a MissingVersion error; otherwise the returned object is that
  same into object and the returned GVK is the one it reports for the mapping.
\<close>

theorem Decode_into_Unstructured_result:
  assumes mf: "metaFactory s data = Inr interpreted"
    and dec: "unmarshal_into (Unmarshal_content X) s data [] = (st, None, c)"
  shows "Decode X s data gvk (Some (Unstructured u)) =
     Return (let u' = SetUnstructuredContent X u c; derived = Unstructured_GroupVersionKind X u' in
       if Kind derived = []
       then \<lparr>ret_obj = None, ret_gvk = Some derived,
             ret_err = Some (MissingKindErr (diagnose X data)), into_after = Some (Unstructured u')\<rparr>
       else if Version derived = []
       then \<lparr>ret_obj = None, ret_gvk = Some derived,
             ret_err = Some (MissingVersionErr (diagnose X data)), into_after = Some (Unstructured u')\<rparr>
       else \<lparr>ret_obj = Some (Caller (Unstructured u')), ret_gvk = Some derived,
             ret_err = None, into_after = Some (Unstructured u')\<rparr>)"
  using mf dec
  by (simp add: Decode_def Decode_into_Unstructured_def unmarshal_Unstructured_def Let_def)

theorem Decode_into_Unstructured_result_witness:
  "Decode testX (newSerializer (stubMetaFactory (Inr emptyGVK)) (stubCreater (Inl (OtherError ''no creater'')))
        (stubTyper (Inl (OtherError ''no typer''))) [])
      data_apiVersion_kind None (Some (Unstructured []))
    = Return \<lparr>ret_obj = Some (Caller (Unstructured [(''apiVersion'', String ''v''), (''kind'', String ''k'')])),
              ret_gvk = Some \<lparr>Group = [], Version = ''v'', Kind = ''k''\<rparr>,
              ret_err = None,
              into_after = Some (Unstructured [(''apiVersion'', String ''v''), (''kind'', String ''k'')])\<rparr>"
proof -
  let ?s = "newSerializer (stubMetaFactory (Inr emptyGVK)) (stubCreater (Inl (OtherError ''no creater'')))
        (stubTyper (Inl (OtherError ''no typer''))) [] :: (content, TypeMeta) serializer"
  have mf: "metaFactory ?s data_apiVersion_kind = Inr emptyGVK"
    by (simp add: stubMetaFactory_def)
  have dec: "unmarshal_into (Unmarshal_content testX) ?s data_apiVersion_kind []
      = (None, None, [(''apiVersion'', String ''v''), (''kind'', String ''k'')])"
    by (simp add: unmarshal_into_def testX_def test_Unmarshal_content_def)
  have g: "Unstructured_GroupVersionKind testX [(''apiVersion'', String ''v''), (''kind'', String ''k'')]
      = \<lparr>Group = [], Version = ''v'', Kind = ''k''\<rparr>"
    by (simp add: testX_def content_GroupVersionKind_def FromAPIVersionAndKind_def NestedString_def)
  have sc: "SetUnstructuredContent testX [] [(''apiVersion'', String ''v''), (''kind'', String ''k'')]
      = [(''apiVersion'', String ''v''), (''kind'', String ''k'')]"
    by (simp add: testX_def)
  from Decode_into_Unstructured_result[OF mf dec, where u = "[]" and gvk = None]
  show ?thesis by (simp add: sc g Let_def)
qed

text \<open>
  C2 as stated fails where both the derived Kind and the derived Version are empty:
  for the empty map the derived Version is empty, and the call fails with the
  MissingKind error, which is checked first.
\<close>

theorem Decode_into_Unstructured_both_empty:
  "Decode testX (newSerializer (stubMetaFactory (Inr emptyGVK)) (stubCreater (Inl (OtherError ''unused''))) (stubTyper (Inl (OtherError ''unused''))) [])
     [0xa0] None (Some (Unstructured []))
   = Return \<lparr>ret_obj = None, ret_gvk = Some \<lparr>Group = [], Version = [], Kind = []\<rparr>,
             ret_err = Some (MissingKindErr ''a0''), into_after = Some (Unstructured [])\<rparr>"
  by (simp add: Decode_def Decode_into_Unstructured_def unmarshal_Unstructured_def unmarshal_into_def
      stubMetaFactory_def testX_def test_Unmarshal_content_def content_GroupVersionKind_def emptyGVK_def
      FromAPIVersionAndKind_def NestedString_def diagnose_def EncodeToString_a0 Let_def)

subsection \<open>Objects and errors returned by Decode\<close>

lemma unmarshal_into_strict_shape:
  "unmarshal_into U s data d = (st, lax, d') \<Longrightarrow>
     st = None \<or> (\<exists>i. st = Some (StrictDecodingError [UnknownFieldError i]))"
  by (auto simp: unmarshal_into_def split: if_splits prod.splits option.splits error.splits)

lemma unmarshal_strict_shape:
  "unmarshal X s data ob = (st, lax, ob') \<Longrightarrow>
     st = None \<or> (\<exists>i. st = Some (StrictDecodingError [UnknownFieldError i]))"
  by (auto simp: unmarshal_def unmarshal_Unstructured_def split: object.splits prod.splits
      dest: unmarshal_into_strict_shape)

lemma error_or_object_selected: "error_or_object X s data (Decode_selected X s data a into)"
proof (cases "Kind a = [] \<or> Version a = []")
  case True
  then show ?thesis by (auto simp: error_or_object_def Decode_selected_def)
next
  case False
  show ?thesis
  proof (cases "UseOrCreateObject (typer s) (creater s) a into")
    case (Inl e)
    with False show ?thesis by (auto simp: error_or_object_def Decode_selected_def)
  next
    case (Inr tgt)
    obtain st lax ob where u: "unmarshal X s data (target_object tgt) = (st, lax, ob)"
      by (cases "unmarshal X s data (target_object tgt)") auto
    from unmarshal_strict_shape[OF u]
    have sh: "st = None \<or> (\<exists>i. st = Some (StrictDecodingError [UnknownFieldError i]))" .
    show ?thesis
    proof (cases lax)
      case None
      have "target_object (target_holding tgt ob) = ob"
        by (cases tgt) (simp_all add: target_object_def target_holding_def)
      with False Inr u None sh show ?thesis
        by (auto simp: error_or_object_def Decode_selected_def Let_def)
    next
      case (Some e)
      with False Inr u show ?thesis
        by (auto simp: error_or_object_def Decode_selected_def Let_def)
    qed
  qed
qed

lemma error_or_object_Unstructured: "error_or_object X s data (Decode_into_Unstructured X s data a u)"
proof -
  obtain st lax u' where uu: "unmarshal_Unstructured X s data u = (st, lax, u')"
    by (cases "unmarshal_Unstructured X s data u") auto
  then have "unmarshal X s data (Unstructured u) = (st, lax, Unstructured u')"
    by (simp add: unmarshal_def)
  with uu show ?thesis
    by (cases lax) (auto simp: error_or_object_def Decode_into_Unstructured_def Let_def target_object_def)
qed

text \<open>
  C9, as amended. Every call to Decode that returns either returns an error with a nil
  object, or returns an object that a decode without error has filled, with no error
  or with the StrictDecodingError warning of an unknown field.
\<close>

theorem Decode_object_or_error:
  assumes "Decode X s data gvk into = Return r"
  shows "(ret_obj r = None \<and> ret_err r \<noteq> None) \<or>
         (\<exists>tgt. ret_obj r = Some tgt \<and>
            (ret_err r = None \<or> (\<exists>i. ret_err r = Some (StrictDecodingError [UnknownFieldError i]))) \<and>
            (\<exists>dst st. unmarshal X s data dst = (st, None, target_object tgt)))"
proof -
  have "error_or_object X s data r"
  proof (cases "metaFactory s data")
    case (Inl e)
    with assms show ?thesis by (auto simp: Decode_def error_or_object_def)
  next
    case (Inr i)
    show ?thesis
    proof (cases into)
      case None
      with Inr assms show ?thesis by (auto simp: Decode_def Let_def error_or_object_selected)
    next
      case (Some ob)
      show ?thesis
      proof (cases ob)
        case (Unstructured u)
        with Inr Some assms show ?thesis by (auto simp: Decode_def Let_def error_or_object_Unstructured)
      next
        case (Typed t)
        show ?thesis
        proof (cases "typer s (Typed t)")
          case (Inl e)
          with Inr Some Typed assms show ?thesis by (auto simp: Decode_def Let_def error_or_object_def)
        next
          case kinds: (Inr ks)
          with Inr Some Typed assms show ?thesis
            by (cases ks) (auto simp: Decode_def Let_def error_or_object_selected)
        qed
      qed
    qed
  qed
  then show ?thesis by (auto simp: error_or_object_def split: option.splits)
qed

theorem Decode_object_or_error_witness:
  "Decode testX (newSerializer (stubMetaFactory (Inr emptyGVK)) (stubCreater (Inl (OtherError ''no creater'')))
        (stubTyper (Inl (OtherError ''no typer''))) [])
      [] (Some \<lparr>Group = ''x'', Version = ''y'', Kind = ''z''\<rparr>) (Some (Unstructured []))
    = Return \<lparr>ret_obj = None, ret_gvk = Some \<lparr>Group = ''x'', Version = ''y'', Kind = ''z''\<rparr>,
              ret_err = Some (OtherError ''EOF''), into_after = Some (Unstructured [])\<rparr>
   \<and> ((ret_obj \<lparr>ret_obj = None, ret_gvk = Some \<lparr>Group = ''x'', Version = ''y'', Kind = ''z''\<rparr>,
              ret_err = Some (OtherError ''EOF''), into_after = Some (Unstructured ([] :: content))\<rparr>
          = (None :: (content, TypeMeta) target option))
        \<and> ret_err \<lparr>ret_obj = (None :: (content, TypeMeta) target option), ret_gvk = Some \<lparr>Group = ''x'', Version = ''y'', Kind = ''z''\<rparr>,
              ret_err = Some (OtherError ''EOF''), into_after = Some (Unstructured ([] :: content))\<rparr> \<noteq> None)"
proof -
  let ?s = "newSerializer (stubMetaFactory (Inr emptyGVK)) (stubCreater (Inl (OtherError ''no creater'')))
        (stubTyper (Inl (OtherError ''no typer''))) [] :: (content, TypeMeta) serializer"
  have ne: "[] \<noteq> data_apiVersion_kind" "[] \<noteq> data_apiVersion" "[] \<noteq> data_kind" "[] \<noteq> data_z" "[] \<noteq> data_kind_z"
    by (simp_all add: data_apiVersion_def data_apiVersion_kind_def data_kind_def data_z_def data_kind_z_def ascii_def)
  have d: "Decode testX ?s [] (Some \<lparr>Group = ''x'', Version = ''y'', Kind = ''z''\<rparr>) (Some (Unstructured []))
    = Return \<lparr>ret_obj = None, ret_gvk = Some \<lparr>Group = ''x'', Version = ''y'', Kind = ''z''\<rparr>,
              ret_err = Some (OtherError ''EOF''), into_after = Some (Unstructured [])\<rparr>"
    using ne
    by (simp add: Decode_def Decode_into_Unstructured_def unmarshal_Unstructured_def unmarshal_into_def
        stubMetaFactory_def testX_def test_Unmarshal_content_def emptyGVK_def gvkWithDefaults_def)
  from Decode_object_or_error[OF d] d show ?thesis by simp
qed

text \<open>
  C9 as stated fails for the mutation of a caller-supplied into object: when the data
  decodes into an unstructured into and the mapping has no kind, Decode returns the
  MissingKind error with a nil object, and into, which held other content before the
  call, holds the decoded mapping.
\<close>

theorem Decode_error_mutates_into:
  "Decode testX (newSerializer (stubMetaFactory (Inr emptyGVK)) (stubCreater (Inl (OtherError ''unused''))) (stubTyper (Inl (OtherError ''unused''))) [])
     data_apiVersion None (Some (Unstructured [(''kind'', String ''Old''), (''apiVersion'', String ''old'')]))
   = Return \<lparr>ret_obj = None, ret_gvk = Some \<lparr>Group = [], Version = ''v'', Kind = []\<rparr>,
             ret_err = Some (MissingKindErr ''a16a61706956657273696f6e6176''),
             into_after = Some (Unstructured [(''apiVersion'', String ''v'')])\<rparr>
   \<and> [(''apiVersion'', String ''v'')] \<noteq> [(''kind'', String ''Old''), (''apiVersion'', String ''old'')]"
proof -
  have h: "EncodeToString data_apiVersion = ''a16a61706956657273696f6e6176''"
    by (simp add: EncodeToString_def hexdigit_def data_apiVersion_def ascii_def)
  have ne: "[(''apiVersion'', String ''v'')] \<noteq> [(''kind'', String ''Old''), (''apiVersion'', String ''old'')]"
    by simp
  show ?thesis using ne
  by (simp add: Decode_def Decode_into_Unstructured_def unmarshal_Unstructured_def unmarshal_into_def
      stubMetaFactory_def testX_def test_Unmarshal_content_def content_GroupVersionKind_def
      FromAPIVersionAndKind_def NestedString_def diagnose_def h Let_def)
qed

subsection \<open>Round trips of the union types\<close>

lemma ascii_simps [simp]:
  "ascii [] = []" "ascii (c # cs) = of_char c # ascii cs"
  by (simp_all add: ascii_def)












subsection \<open>The strict and the lax mode\<close>

lemma DecodeLax_options_eq:
  assumes "Decode_mode L = Return sm" and "DecodeLax_mode L = Return lm"
  shows "sm = Decode_options L"
    and "lm = sm\<lparr>ExtraReturnErrors := and (ExtraReturnErrors sm) (not (ExtraDecErrorUnknownField L))\<rparr>"
    and "ExtraReturnErrors lm = 0"
  using assms
  by (auto simp: Decode_mode_def DecodeLax_mode_def Let_def Decode_options_def
      split: option.splits)

text \<open>
  C10. For every input and destination, if decoding with the strict mode succeeds
  without error, then decoding the same input into the same destination with the lax
  mode also succeeds and produces an identical value; the two modes differ only in
  whether unknown struct fields are reported as errors: the lax mode leaves the
  destination as the strict mode does, returns the strict mode's error unless that is
  an unknown field error, and its options are those of the strict mode without the
  bit for unknown fields.
\<close>

theorem DecodeLax_refines_Decode:
  assumes strict: "Decode_mode L = Return sm" and lax: "DecodeLax_mode L = Return lm"
  shows "(DecMode_Unmarshal L sm data dst = (None, v) \<longrightarrow> DecMode_Unmarshal L lm data dst = (None, v))
       \<and> snd (DecMode_Unmarshal L lm data dst) = snd (DecMode_Unmarshal L sm data dst)
       \<and> (fst (DecMode_Unmarshal L sm data dst) = fst (DecMode_Unmarshal L lm data dst)
          \<or> (\<exists>i. fst (DecMode_Unmarshal L sm data dst) = Some (UnknownFieldError i)
                \<and> fst (DecMode_Unmarshal L lm data dst) = None))
       \<and> lm = sm\<lparr>ExtraReturnErrors := and (ExtraReturnErrors sm) (not (ExtraDecErrorUnknownField L))\<rparr>"
proof -
  note o = DecodeLax_options_eq[OF strict lax]
  let ?f = "ExtraDecErrorUnknownField L"
  let ?c = "sm\<lparr>ExtraReturnErrors := and (ExtraReturnErrors sm) (not ?f)\<rparr>"
  have c: "lm\<lparr>ExtraReturnErrors := and (ExtraReturnErrors lm) (not ?f)\<rparr> = ?c"
    by (subst (1 2) o(2)) (simp add: and.assoc)
  have off: "and (ExtraReturnErrors lm) ?f = 0"
    by (simp add: o(3))
  have l: "DecMode_Unmarshal L lm data dst = common_Unmarshal L ?c data dst"
    by (simp add: DecMode_Unmarshal_def c off split: prod.splits option.splits)
  show ?thesis
    unfolding l using o(2)
    by (auto simp: DecMode_Unmarshal_def split: prod.splits option.splits)
qed

theorem DecodeLax_refines_Decode_witness:
  "Decode_mode testL = Return (Decode_options testL)
   \<and> DecodeLax_mode testL = Return ((Decode_options testL)\<lparr>ExtraReturnErrors := 0\<rparr>)
   \<and> DecMode_Unmarshal testL (Decode_options testL) data_kind \<lparr>TypeMeta_Kind = [], TypeMeta_APIVersion = []\<rparr>
       = (None, \<lparr>TypeMeta_Kind = ''k'', TypeMeta_APIVersion = []\<rparr>)
   \<and> DecMode_Unmarshal testL ((Decode_options testL)\<lparr>ExtraReturnErrors := 0\<rparr>) data_kind
         \<lparr>TypeMeta_Kind = [], TypeMeta_APIVersion = []\<rparr>
       = (None, \<lparr>TypeMeta_Kind = ''k'', TypeMeta_APIVersion = []\<rparr>)
   \<and> DecMode_Unmarshal testL (Decode_options testL) data_kind_z \<lparr>TypeMeta_Kind = [], TypeMeta_APIVersion = []\<rparr>
       = (Some (UnknownFieldError 1), \<lparr>TypeMeta_Kind = ''k'', TypeMeta_APIVersion = []\<rparr>)"
proof -
  let ?t0 = "\<lparr>TypeMeta_Kind = [], TypeMeta_APIVersion = []\<rparr>"
  have s: "Decode_mode testL = Return (Decode_options testL)"
    by (simp add: Decode_mode_def testL_def)
  have l: "DecodeLax_mode testL = Return ((Decode_options testL)\<lparr>ExtraReturnErrors := 0\<rparr>)"
    by (simp add: DecodeLax_mode_def Decode_mode_def testL_def Decode_options_def Let_def)
  have u: "DecMode_Unmarshal testL (Decode_options testL) data_kind ?t0
       = (None, \<lparr>TypeMeta_Kind = ''k'', TypeMeta_APIVersion = []\<rparr>)"
    by (simp add: DecMode_Unmarshal_def testL_def test_Unmarshal_TypeMeta_def Decode_options_def
        data_kind_def data_z_def data_kind_z_def data_apiVersion_def data_apiVersion_kind_def ascii_def)
  have z: "DecMode_Unmarshal testL (Decode_options testL) data_kind_z ?t0
       = (Some (UnknownFieldError 1), \<lparr>TypeMeta_Kind = ''k'', TypeMeta_APIVersion = []\<rparr>)"
    by (simp add: DecMode_Unmarshal_def testL_def test_Unmarshal_TypeMeta_def Decode_options_def)
  from DecodeLax_refines_Decode[OF s l, of data_kind ?t0 "\<lparr>TypeMeta_Kind = ''k'', TypeMeta_APIVersion = []\<rparr>"] u
  have "DecMode_Unmarshal testL ((Decode_options testL)\<lparr>ExtraReturnErrors := 0\<rparr>) data_kind ?t0
       = (None, \<lparr>TypeMeta_Kind = ''k'', TypeMeta_APIVersion = []\<rparr>)"
    by blast
  with s l u z show ?thesis by simp
qed

end
